theory Spec2Isabelle
  imports Main "HOL-Library.Word"
begin

section \<open>The standard output streams\<close>

text \<open>
  \<^verbatim>\<open>std::cout\<close> and \<^verbatim>\<open>std::cerr\<close> are modelled by the characters written so far and
  the one formatting flag the program changes, the integer base (\<^verbatim>\<open>std::hex\<close>,
  \<^verbatim>\<open>std::dec\<close>). The flags \<^verbatim>\<open>showbase\<close> and \<^verbatim>\<open>uppercase\<close> are never set by the
  program and keep their default (off): integers are written without a prefix and with
  the digits \<^verbatim>\<open>0123456789abcdef\<close>.
\<close>

datatype fmtflags = Dec | Hex

record ostream =
  buf :: string
  basefield :: fmtflags

fun radix :: "fmtflags \<Rightarrow> nat" where
  "radix Dec = 10"
| "radix Hex = 16"

definition digit_char :: "nat \<Rightarrow> char" where
  "digit_char d = ''0123456789abcdef'' ! d"

function digits :: "fmtflags \<Rightarrow> nat \<Rightarrow> string" where
  "digits f n =
     (if n < radix f then [digit_char n]
      else digits f (n div radix f) @ [digit_char (n mod radix f)])"
  by pat_completeness auto
termination
proof (relation "measure (\<lambda>(f, n). n)")
  show "wf (measure (\<lambda>(f, n). n))" by simp
next
  fix f :: fmtflags and n :: nat
  assume "\<not> n < radix f"
  moreover have "2 \<le> radix f" by (cases f) simp_all
  ultimately have "n div radix f < n" by (simp add: div_less_dividend)
  then show "((f, n div radix f), (f, n)) \<in> measure (\<lambda>(f, n). n)" by simp
qed

declare digits.simps [simp del]

definition nl :: string where
  "nl = [CHR 0x0A]"

text \<open>\<^verbatim>\<open>os << "text"\<close>, \<^verbatim>\<open>os << wgpu::StringView(s)\<close>\<close>

definition put_str :: "string \<Rightarrow> ostream \<Rightarrow> ostream" where
  "put_str s os = os\<lparr>buf := buf os @ s\<rparr>"

text \<open>
  \<^verbatim>\<open>os << v\<close> for a \<^verbatim>\<open>uint32_t\<close> or a value of one of the 32-bit C enumerations of
  \<^verbatim>\<open>webgpu.h\<close>: the value is written in the base the stream is in.
\<close>

definition put_u32 :: "32 word \<Rightarrow> ostream \<Rightarrow> ostream" where
  "put_u32 v os = os\<lparr>buf := buf os @ digits (basefield os) (unat v)\<rparr>"

text \<open>\<^verbatim>\<open>os << std::endl\<close>\<close>

definition endl :: "ostream \<Rightarrow> ostream" where
  "endl os = os\<lparr>buf := buf os @ nl\<rparr>"

text \<open>\<^verbatim>\<open>os << std::hex\<close>, \<^verbatim>\<open>os << std::dec\<close>\<close>

definition set_base :: "fmtflags \<Rightarrow> ostream \<Rightarrow> ostream" where
  "set_base f os = os\<lparr>basefield := f\<rparr>"

text \<open>
  A chain \<^verbatim>\<open>os << x << y << z\<close>, and a sequence of such statements: the operations of
  the list, applied in the order written.
\<close>

definition seq :: "('s \<Rightarrow> 's) list \<Rightarrow> 's \<Rightarrow> 's" where
  "seq fs s = fold (\<lambda>f. f) fs s"

section \<open>The GPU API as seen by the program\<close>

text \<open>
  Handles (\<^verbatim>\<open>WGPUInstance\<close>, \<^verbatim>\<open>WGPUAdapter\<close>) are opaque pointers: an address, with
  \<open>0\<close> for \<^verbatim>\<open>nullptr\<close>.
\<close>

type_synonym handle = nat

record WGPULimits =
  maxTextureDimension1D :: "32 word"
  maxTextureDimension2D :: "32 word"
  maxTextureDimension3D :: "32 word"
  maxTextureArrayLayers :: "32 word"

record WGPUAdapterInfo =
  vendorID :: "32 word"
  vendor :: string
  architecture :: string
  deviceID :: "32 word"
  device :: string
  description :: string
  adapterType :: "32 word"
  backendType :: "32 word"

text \<open>The arguments of one invocation of the request-adapter callback.\<close>

record callback_args =
  cb_status :: "32 word"
  cb_adapter :: handle
  cb_message :: string

text \<open>
  The API is an external collaborator; its behaviour is a parameter of the model (a stub).
  \<^item> \<open>createInstance\<close>: the handle \<^verbatim>\<open>wgpuCreateInstance\<close> returns.
  \<^item> \<open>deliveries\<close>: when the API invokes the request-adapter callback, and with which
    arguments. \<open>deliveries api 0\<close> are the invocations made while
    \<^verbatim>\<open>wgpuInstanceRequestAdapter\<close> itself runs, \<open>deliveries api k\<close> for \<open>k > 0\<close>
    those made by the runtime during the \<open>k\<close>-th \<^verbatim>\<open>emscripten_sleep\<close>. The model does
    not assume the API's contract (one invocation per request): any number of
    invocations may happen at any of these points.
  \<^item> \<open>getLimits\<close>: the value \<^verbatim>\<open>wgpuAdapterGetLimits\<close> returns and the limits it reports
    (what the limits record holds after the call).
  \<^item> \<open>getFeatures\<close>: the feature codes of an adapter; a C array with its element count is
    a list.
  \<^item> \<open>getInfo\<close>: the record \<^verbatim>\<open>wgpuAdapterGetInfo\<close> fills.
\<close>

record api =
  createInstance :: handle
  deliveries :: "nat \<Rightarrow> callback_args list"
  getLimits :: "handle \<Rightarrow> 32 word \<times> WGPULimits"
  getFeatures :: "handle \<Rightarrow> 32 word list"
  getInfo :: "handle \<Rightarrow> WGPUAdapterInfo"

text \<open>
  What is fixed when the program is compiled: the two preprocessor symbols the source
  tests, the two enumeration constants of \<^verbatim>\<open>webgpu.h\<close> it compares against (the header is
  not part of the sources, so their values are parameters), and the implementation-defined
  text \<^verbatim>\<open>operator<<\<close> writes for a pointer.
\<close>

record build =
  EMSCRIPTEN :: bool
  WEBGPU_BACKEND_DAWN :: bool
  WGPURequestAdapterStatus_Success :: "32 word"
  WGPUStatus_Success :: "32 word"
  show_ptr :: "handle \<Rightarrow> string"

text \<open>The calls into the API and the runtime, in the order the program makes them.\<close>

datatype api_call =
    CreateInstance
  | InstanceRequestAdapter handle
  | EmscriptenSleep nat
  | AdapterGetLimits handle
  | AdapterEnumerateFeatures handle bool
  | AdapterGetFeatures handle
  | SupportedFeaturesFreeMembers "32 word list"
  | AdapterGetInfo handle
  | AdapterInfoFreeMembers WGPUAdapterInfo
  | InstanceRelease handle
  | AdapterRelease handle

text \<open>
  The state of the process that the program can change: the two streams and the log of
  API calls.
\<close>

record world =
  cout :: ostream
  cerr :: ostream
  calls :: "api_call list"

definition initial_world :: world where
  "initial_world =
     \<lparr>cout = \<lparr>buf = [], basefield = Dec\<rparr>, cerr = \<lparr>buf = [], basefield = Dec\<rparr>,
      calls = []\<rparr>"

definition on_cout :: "(ostream \<Rightarrow> ostream) \<Rightarrow> world \<Rightarrow> world" where
  "on_cout f w = w\<lparr>cout := f (cout w)\<rparr>"

definition on_cerr :: "(ostream \<Rightarrow> ostream) \<Rightarrow> world \<Rightarrow> world" where
  "on_cerr f w = w\<lparr>cerr := f (cerr w)\<rparr>"

definition call :: "api_call \<Rightarrow> world \<Rightarrow> world" where
  "call c w = w\<lparr>calls := calls w @ [c]\<rparr>"

section \<open>requestAdapterSync\<close>

record UserData =
  adapter :: handle
  requestEnded :: bool

text \<open>
  The frame of one call of \<^verbatim>\<open>requestAdapterSync\<close>: its local \<^verbatim>\<open>userData\<close>, the process
  state, and two history variables that are not in the source: \<open>flag_log\<close> records the
  value of \<^verbatim>\<open>userData.requestEnded\<close> at its initialisation and after every assignment
  to it, in order; \<open>slept\<close> counts the calls of \<^verbatim>\<open>emscripten_sleep\<close> made so far, which
  is the index into \<open>deliveries\<close>.
\<close>

record frame =
  userData :: UserData
  env :: world
  flag_log :: "bool list"
  slept :: nat

text \<open>\<^verbatim>\<open>UserData userData;\<close> with the default member initialisers.\<close>

definition new_frame :: "world \<Rightarrow> frame" where
  "new_frame w =
     \<lparr>userData = \<lparr>adapter = 0, requestEnded = False\<rparr>, env = w, flag_log = [False],
      slept = 0\<rparr>"

text \<open>
  The callback. The two lambdas of the source (browser-hosted and native) differ only in
  the C type of the message; both bodies are the same.
\<close>

definition callback :: "build \<Rightarrow> callback_args \<Rightarrow> frame \<Rightarrow> frame" where
  "callback b a fr =
     (let fr1 =
        (if cb_status a = WGPURequestAdapterStatus_Success b
         then fr\<lparr>userData := (userData fr)\<lparr>adapter := cb_adapter a\<rparr>\<rparr>
         else fr\<lparr>env := on_cout (seq [put_str ''Could not get WebGPU adapter: '',
                                      put_str (cb_message a), endl]) (env fr)\<rparr>)
      in fr1\<lparr>userData := (userData fr1)\<lparr>requestEnded := True\<rparr>,
              flag_log := flag_log fr1 @ [True]\<rparr>)"

text \<open>The API invoking the callback for each of a list of results, in order.\<close>

fun deliver :: "build \<Rightarrow> callback_args list \<Rightarrow> frame \<Rightarrow> frame" where
  "deliver b [] fr = fr"
| "deliver b (a # as) fr = deliver b as (callback b a fr)"

text \<open>
  \<^verbatim>\<open>wgpuInstanceRequestAdapter(instance, options, ...)\<close>. The options and the way the
  callback is registered (a callback-info record in the native build, two arguments in
  the browser-hosted one) go to the API unchanged; what the API makes of them is its
  \<open>deliveries\<close>.
\<close>

definition wgpuInstanceRequestAdapter :: "build \<Rightarrow> api \<Rightarrow> handle \<Rightarrow> frame \<Rightarrow> frame" where
  "wgpuInstanceRequestAdapter b a instance fr =
     deliver b (deliveries a 0) (fr\<lparr>env := call (InstanceRequestAdapter instance) (env fr)\<rparr>)"

text \<open>\<^verbatim>\<open>emscripten_sleep(100)\<close>: control goes to the runtime, which may invoke the callback.\<close>

definition emscripten_sleep :: "build \<Rightarrow> api \<Rightarrow> nat \<Rightarrow> frame \<Rightarrow> frame" where
  "emscripten_sleep b a ms fr =
     deliver b (deliveries a (Suc (slept fr)))
       (fr\<lparr>env := call (EmscriptenSleep ms) (env fr), slept := Suc (slept fr)\<rparr>)"

text \<open>
  \<^verbatim>\<open>while (!userData.requestEnded) { emscripten_sleep(100); }\<close>.
  The loop has no bound: where the callback is never invoked it does not return, which
  is the value \<open>None\<close>.
\<close>

partial_function (option) wait_loop :: "build \<Rightarrow> api \<Rightarrow> frame \<Rightarrow> frame option" where
  "wait_loop b a fr =
     (if \<not> requestEnded (userData fr) then wait_loop b a (emscripten_sleep b a 100 fr)
      else Some fr)"

declare wait_loop.simps [code]

text \<open>
  \<^verbatim>\<open>assert(userData.requestEnded)\<close> aborts the process when the flag is false
  (\<^verbatim>\<open>NDEBUG\<close> is not defined by the source); the error comes with the state of the
  process at that point. In \<open>main\<close> the local holding the returned handle is \<open>adapterH\<close>,
  since \<open>adapter\<close> is the field of \<open>UserData\<close>.
\<close>

datatype error = AssertionFailed

definition requestAdapterSync ::
  "build \<Rightarrow> api \<Rightarrow> handle \<Rightarrow> world \<Rightarrow> (error \<times> world + handle \<times> frame) option" where
  "requestAdapterSync b a instance w =
     (case (if EMSCRIPTEN b
            then wait_loop b a (wgpuInstanceRequestAdapter b a instance (new_frame w))
            else Some (wgpuInstanceRequestAdapter b a instance (new_frame w))) of
        None \<Rightarrow> None
      | Some fr \<Rightarrow>
          if \<not> requestEnded (userData fr) then Some (Inl (AssertionFailed, env fr))
          else Some (Inr (adapter (userData fr), fr)))"

section \<open>inspectAdapter\<close>

text \<open>
  How the source reads the result of \<^verbatim>\<open>wgpuAdapterGetLimits\<close>: compared with
  \<^verbatim>\<open>WGPUStatus_Success\<close> in a native build against Dawn, converted to \<^verbatim>\<open>bool\<close>
  (non-zero) otherwise.
\<close>

definition limits_success :: "build \<Rightarrow> 32 word \<Rightarrow> bool" where
  "limits_success b r =
     (if EMSCRIPTEN b then r \<noteq> 0
      else if WEBGPU_BACKEND_DAWN b then r = WGPUStatus_Success b
      else r \<noteq> 0)"

text \<open>
  The limits section. The limits record starts zeroed and is filled by the API; in the
  browser-hosted build the four fields are read from the member \<^verbatim>\<open>limits\<close> of a
  \<^verbatim>\<open>WGPUSupportedLimits\<close>, in the native build from the \<^verbatim>\<open>WGPULimits\<close> itself.
\<close>

definition limits_section :: "build \<Rightarrow> api \<Rightarrow> handle \<Rightarrow> world \<Rightarrow> world" where
  "limits_section b a h w =
     (let (r, supportedLimits) = getLimits a h;
          w = call (AdapterGetLimits h) w;
          success = limits_success b r
      in if success
         then on_cout (seq
           [put_str ''Adapter limits:'', endl,
            put_str '' - maxTextureDimension1D: '',
              put_u32 (maxTextureDimension1D supportedLimits), endl,
            put_str '' - maxTextureDimension2D: '',
              put_u32 (maxTextureDimension2D supportedLimits), endl,
            put_str '' - maxTextureDimension3D: '',
              put_u32 (maxTextureDimension3D supportedLimits), endl,
            put_str '' - maxTextureArrayLayers: '',
              put_u32 (maxTextureArrayLayers supportedLimits), endl]) w
         else w)"

text \<open>
  \<^verbatim>\<open>for (size_t i = 0; i < featureCount; ++i) std::cout << " - 0x" << features[i] << std::endl;\<close>
\<close>

function print_features :: "32 word list \<Rightarrow> nat \<Rightarrow> nat \<Rightarrow> ostream \<Rightarrow> ostream" where
  "print_features features featureCount i os =
     (if i < featureCount
      then print_features features featureCount (Suc i)
             (seq [put_str '' - 0x'', put_u32 (features ! i), endl] os)
      else os)"
  by pat_completeness auto
termination
  by (relation "measure (\<lambda>(features, featureCount, i, os). featureCount - i)") auto

declare print_features.simps [simp del]

text \<open>
  The features section. In the browser-hosted build the API is called twice, first for
  the count and then to fill a vector of that size owned by the function (the stub
  answers both calls from the same list); in the native build the API returns a list it
  owns, which the function frees.
\<close>

definition features_section :: "build \<Rightarrow> api \<Rightarrow> handle \<Rightarrow> world \<Rightarrow> world" where
  "features_section b a h w =
     (if EMSCRIPTEN b then
        (let featureCount = length (getFeatures a h);
             w = call (AdapterEnumerateFeatures h False) w;
             features = getFeatures a h;
             w = call (AdapterEnumerateFeatures h True) w
         in on_cout (seq
              [put_str ''Adapter features:'', endl,
               set_base Hex,
               print_features features featureCount 0,
               set_base Dec]) w)
      else
        (let features = getFeatures a h;
             w = call (AdapterGetFeatures h) w;
             w = on_cout (seq
                   [put_str ''Adapter features:'', endl,
                    set_base Hex,
                    print_features features (length features) 0,
                    set_base Dec]) w
         in call (SupportedFeaturesFreeMembers features) w))"

text \<open>
  The identification section, common to both builds: \<^verbatim>\<open>wgpuAdapterGetInfo\<close>, ten lines
  of output, \<^verbatim>\<open>wgpuAdapterInfoFreeMembers\<close>.
\<close>

definition properties_section :: "api \<Rightarrow> handle \<Rightarrow> world \<Rightarrow> world" where
  "properties_section a h w =
     (let properties = getInfo a h;
          w = call (AdapterGetInfo h) w;
          w = on_cout (seq
                [put_str ''Adapter properties:'', endl,
                 put_str '' - vendorID: '', put_u32 (vendorID properties), endl,
                 put_str '' - vendorName: '', put_str (vendor properties), endl,
                 put_str '' - architecture: '', put_str (architecture properties), endl,
                 put_str '' - deviceID: '', put_u32 (deviceID properties), endl,
                 put_str '' - name: '', put_str (device properties), endl,
                 put_str '' - driverDescription: '', put_str (description properties), endl,
                 set_base Hex,
                 put_str '' - adapterType: 0x'', put_u32 (adapterType properties), endl,
                 put_str '' - backendType: 0x'', put_u32 (backendType properties), endl,
                 set_base Dec]) w
      in call (AdapterInfoFreeMembers properties) w)"

definition inspectAdapter :: "build \<Rightarrow> api \<Rightarrow> handle \<Rightarrow> world \<Rightarrow> world" where
  "inspectAdapter b a h w =
     properties_section a h (features_section b a h (limits_section b a h w))"

section \<open>main\<close>

text \<open>
  How the process ends: with an exit status, or aborted by a failed assertion. A run
  that never ends is \<open>None\<close>.
\<close>

datatype outcome = Exit int | Abort

definition wgpuCreateInstance :: "api \<Rightarrow> world \<Rightarrow> handle \<times> world" where
  "wgpuCreateInstance a w = (createInstance a, call CreateInstance w)"

text \<open>\<^verbatim>\<open>os << p\<close> for a handle.\<close>

definition put_ptr :: "build \<Rightarrow> handle \<Rightarrow> ostream \<Rightarrow> ostream" where
  "put_ptr b p os = put_str (show_ptr b p) os"

definition main :: "build \<Rightarrow> api \<Rightarrow> world \<Rightarrow> (outcome \<times> world) option" where
  "main b a w =
     (let (instance, w) = wgpuCreateInstance a w
      in if instance = 0
         then Some (Exit 1, on_cerr (seq [put_str ''Could not initialize WebGPU!'', endl]) w)
         else
           (let w = on_cout (seq [put_str ''WGPU instance: '', put_ptr b instance, endl]) w;
                w = on_cout (seq [put_str ''Requesting adapter...'', endl]) w
            in case requestAdapterSync b a instance w of
                 None \<Rightarrow> None
               | Some (Inl (e, w)) \<Rightarrow> Some (Abort, w)
               | Some (Inr (adapterH, fr)) \<Rightarrow>
                   (let w = env fr;
                        w = on_cout (seq [put_str ''Got adapter: '', put_ptr b adapterH, endl]) w;
                        w = inspectAdapter b a adapterH w;
                        w = call (InstanceRelease instance) w;
                        w = call (AdapterRelease adapterH) w
                    in Some (Exit 0, w))))"

section \<open>Notions used to state the properties\<close>

text \<open>
  The text of the three sections of the report of \<open>inspectAdapter\<close>, as a reader of the
  console sees them. \<open>limits_text\<close> is empty when the limits query is read as failed; its
  numbers are in the base \<open>f\<close> the stream is in when the function is entered. In
  \<open>properties_text\<close> the base \<open>f\<close> is the one the stream is in when the section starts.
\<close>

definition feature_line :: "32 word \<Rightarrow> string" where
  "feature_line = (\<lambda>f. '' - 0x'' @ digits Hex (unat f) @ nl)"

definition limits_text :: "build \<Rightarrow> api \<Rightarrow> handle \<Rightarrow> fmtflags \<Rightarrow> string" where
  "limits_text b a h f =
     (if limits_success b (fst (getLimits a h))
      then ''Adapter limits:'' @ nl
         @ '' - maxTextureDimension1D: ''
             @ digits f (unat (maxTextureDimension1D (snd (getLimits a h)))) @ nl
         @ '' - maxTextureDimension2D: ''
             @ digits f (unat (maxTextureDimension2D (snd (getLimits a h)))) @ nl
         @ '' - maxTextureDimension3D: ''
             @ digits f (unat (maxTextureDimension3D (snd (getLimits a h)))) @ nl
         @ '' - maxTextureArrayLayers: ''
             @ digits f (unat (maxTextureArrayLayers (snd (getLimits a h)))) @ nl
      else [])"

definition features_text :: "32 word list \<Rightarrow> string" where
  "features_text fs = ''Adapter features:'' @ nl @ concat (map feature_line fs)"

definition properties_text :: "fmtflags \<Rightarrow> WGPUAdapterInfo \<Rightarrow> string" where
  "properties_text f p =
     ''Adapter properties:'' @ nl
     @ '' - vendorID: '' @ digits f (unat (vendorID p)) @ nl
     @ '' - vendorName: '' @ vendor p @ nl
     @ '' - architecture: '' @ architecture p @ nl
     @ '' - deviceID: '' @ digits f (unat (deviceID p)) @ nl
     @ '' - name: '' @ device p @ nl
     @ '' - driverDescription: '' @ description p @ nl
     @ '' - adapterType: 0x'' @ digits Hex (unat (adapterType p)) @ nl
     @ '' - backendType: 0x'' @ digits Hex (unat (backendType p)) @ nl"

text \<open>The API calls one inspection of the adapter \<open>h\<close> makes, in order.\<close>

definition inspect_calls :: "build \<Rightarrow> api \<Rightarrow> handle \<Rightarrow> api_call list" where
  "inspect_calls b a h =
     [AdapterGetLimits h]
     @ (if EMSCRIPTEN b
        then [AdapterEnumerateFeatures h False, AdapterEnumerateFeatures h True]
        else [AdapterGetFeatures h, SupportedFeaturesFreeMembers (getFeatures a h)])
     @ [AdapterGetInfo h, AdapterInfoFreeMembers (getInfo a h)]"

text \<open>
  The frames a call of \<open>requestAdapterSync\<close> goes through, whether or not it returns:
  \<open>reached b a inst w 0\<close> is the frame when \<^verbatim>\<open>wgpuInstanceRequestAdapter\<close> has returned,
  \<open>reached b a inst w n\<close> the frame after \<open>n\<close> further rounds of the waiting loop. The
  native build only ever sees the first.
\<close>

fun after_sleeps :: "build \<Rightarrow> api \<Rightarrow> nat \<Rightarrow> frame \<Rightarrow> frame" where
  "after_sleeps b a 0 fr = fr"
| "after_sleeps b a (Suc n) fr = after_sleeps b a n (emscripten_sleep b a 100 fr)"

definition reached :: "build \<Rightarrow> api \<Rightarrow> handle \<Rightarrow> world \<Rightarrow> nat \<Rightarrow> frame" where
  "reached b a inst w n = after_sleeps b a n (wgpuInstanceRequestAdapter b a inst (new_frame w))"

text \<open>The state of the process in which \<open>main\<close> calls \<open>requestAdapterSync\<close>.\<close>

definition before_request :: "build \<Rightarrow> api \<Rightarrow> world \<Rightarrow> world" where
  "before_request b a w =
     on_cout (seq [put_str ''Requesting adapter...'', endl])
       (on_cout (seq [put_str ''WGPU instance: '', put_ptr b (createInstance a), endl])
          (call CreateInstance w))"

text \<open>
  What a call of \<open>requestAdapterSync\<close> that returns shows to its caller and to the
  console: the handle returned and the text written to \<^verbatim>\<open>std::cout\<close> during the call.
\<close>

definition request_report :: "build \<Rightarrow> api \<Rightarrow> handle \<Rightarrow> world \<Rightarrow> (handle \<times> string) option" where
  "request_report b a inst w =
     (case requestAdapterSync b a inst w of
        Some (Inr (h, fr)) \<Rightarrow> Some (h, drop (length (buf (cout w))) (buf (cout (env fr))))
      | _ \<Rightarrow> None)"

text \<open>The calls that release a handle, and the call that frees a feature list.\<close>

fun is_release :: "api_call \<Rightarrow> bool" where
  "is_release (InstanceRelease h) = True"
| "is_release (AdapterRelease h) = True"
| "is_release c = False"

fun is_features_free :: "api_call \<Rightarrow> bool" where
  "is_features_free (SupportedFeaturesFreeMembers fs) = True"
| "is_features_free c = False"

text \<open>The calls made between two states of the process.\<close>

definition new_calls :: "world \<Rightarrow> world \<Rightarrow> api_call list" where
  "new_calls w w' = drop (length (calls w)) (calls w')"

subsection \<open>Stubs\<close>

text \<open>
  Two builds, with the values the constants have in \<^verbatim>\<open>webgpu.h\<close>, and a stub API that
  answers the adapter request with the one callback invocation \<open>r\<close> at point \<open>n\<close>.
\<close>

definition native_build :: build where
  "native_build =
     \<lparr>EMSCRIPTEN = False, WEBGPU_BACKEND_DAWN = False, WGPURequestAdapterStatus_Success = 1,
      WGPUStatus_Success = 1, show_ptr = (\<lambda>p. ''0x'' @ digits Hex p)\<rparr>"

definition browser_build :: build where
  "browser_build = native_build\<lparr>EMSCRIPTEN := True\<rparr>"

definition stub_limits :: WGPULimits where
  "stub_limits =
     \<lparr>maxTextureDimension1D = 8192, maxTextureDimension2D = 8192,
      maxTextureDimension3D = 2048, maxTextureArrayLayers = 256\<rparr>"

definition stub_info :: WGPUAdapterInfo where
  "stub_info =
     \<lparr>vendorID = 4318, vendor = ''NVIDIA'', architecture = ''turing'', deviceID = 7812,
      device = ''GeForce'', description = ''535.1'', adapterType = 0, backendType = 6\<rparr>"

definition stub_api :: "nat \<Rightarrow> callback_args \<Rightarrow> api" where
  "stub_api n r =
     \<lparr>createInstance = 4096,
      deliveries = (\<lambda>k. if k = n then [r] else []),
      getLimits = (\<lambda>h. (1, stub_limits)),
      getFeatures = (\<lambda>h. [0x1, 0x2A]),
      getInfo = (\<lambda>h. stub_info)\<rparr>"

definition success_result :: callback_args where
  "success_result = \<lparr>cb_status = 1, cb_adapter = 8192, cb_message = []\<rparr>"

definition failure_result :: "32 word \<Rightarrow> callback_args" where
  "failure_result s = \<lparr>cb_status = s, cb_adapter = 0, cb_message = ''no gpu''\<rparr>"


section \<open>Auxiliary facts\<close>

subsection \<open>Streams and process state\<close>

lemma buf_put_str [simp]: "buf (put_str s os) = buf os @ s"
  by (simp add: put_str_def)

lemma basefield_put_str [simp]: "basefield (put_str s os) = basefield os"
  by (simp add: put_str_def)

lemma buf_put_u32 [simp]: "buf (put_u32 v os) = buf os @ digits (basefield os) (unat v)"
  by (simp add: put_u32_def)

lemma basefield_put_u32 [simp]: "basefield (put_u32 v os) = basefield os"
  by (simp add: put_u32_def)

lemma buf_endl [simp]: "buf (endl os) = buf os @ nl"
  by (simp add: endl_def)

lemma basefield_endl [simp]: "basefield (endl os) = basefield os"
  by (simp add: endl_def)

lemma buf_set_base [simp]: "buf (set_base f os) = buf os"
  by (simp add: set_base_def)

lemma basefield_set_base [simp]: "basefield (set_base f os) = f"
  by (simp add: set_base_def)

lemma buf_put_ptr [simp]: "buf (put_ptr b p os) = buf os @ show_ptr b p"
  by (simp add: put_ptr_def)

lemma basefield_put_ptr [simp]: "basefield (put_ptr b p os) = basefield os"
  by (simp add: put_ptr_def)

lemma seq_Nil [simp]: "seq [] s = s"
  by (simp add: seq_def)

lemma seq_Cons [simp]: "seq (f # fs) s = seq fs (f s)"
  by (simp add: seq_def)

lemma cout_on_cout [simp]: "cout (on_cout f w) = f (cout w)"
  by (simp add: on_cout_def)

lemma cerr_on_cout [simp]: "cerr (on_cout f w) = cerr w"
  by (simp add: on_cout_def)

lemma calls_on_cout [simp]: "calls (on_cout f w) = calls w"
  by (simp add: on_cout_def)

lemma cout_on_cerr [simp]: "cout (on_cerr f w) = cout w"
  by (simp add: on_cerr_def)

lemma cerr_on_cerr [simp]: "cerr (on_cerr f w) = f (cerr w)"
  by (simp add: on_cerr_def)

lemma calls_on_cerr [simp]: "calls (on_cerr f w) = calls w"
  by (simp add: on_cerr_def)

lemma cout_call [simp]: "cout (call c w) = cout w"
  by (simp add: call_def)

lemma cerr_call [simp]: "cerr (call c w) = cerr w"
  by (simp add: call_def)

lemma calls_call [simp]: "calls (call c w) = calls w @ [c]"
  by (simp add: call_def)

lemma print_features_from:
  "featureCount = length features \<Longrightarrow> basefield os = Hex \<Longrightarrow>
   buf (print_features features featureCount i os)
     = buf os @ concat (map feature_line (drop i features))
   \<and> basefield (print_features features featureCount i os) = Hex"
proof (induction features featureCount i os rule: print_features.induct)
  case (1 features featureCount i os)
  show ?case
  proof (cases "i < featureCount")
    case True
    then have d: "drop i features = features ! i # drop (Suc i) features"
      using "1.prems" by (simp add: Cons_nth_drop_Suc)
    from True "1.IH" "1.prems" show ?thesis
      by (subst (1 2) print_features.simps) (simp add: d feature_line_def)
  next
    case False
    then show ?thesis using "1.prems"
      by (subst (1 2) print_features.simps) simp
  qed
qed

subsection \<open>callback\<close>

lemma requestEnded_callback [simp]: "requestEnded (userData (callback b r fr))"
  by (simp add: callback_def Let_def)

lemma flag_log_callback [simp]: "flag_log (callback b r fr) = flag_log fr @ [True]"
  by (simp add: callback_def Let_def)

lemma slept_callback [simp]: "slept (callback b r fr) = slept fr"
  by (simp add: callback_def Let_def)

lemma calls_callback [simp]: "calls (env (callback b r fr)) = calls (env fr)"
  by (simp add: callback_def Let_def)

lemma cerr_callback [simp]: "cerr (env (callback b r fr)) = cerr (env fr)"
  by (simp add: callback_def Let_def)

lemma adapter_callback:
  "adapter (userData (callback b r fr)) =
     (if cb_status r = WGPURequestAdapterStatus_Success b then cb_adapter r
      else adapter (userData fr))"
  by (simp add: callback_def Let_def)

lemma cout_callback:
  "cout (env (callback b r fr)) =
     (if cb_status r = WGPURequestAdapterStatus_Success b then cout (env fr)
      else (cout (env fr))
             \<lparr>buf := buf (cout (env fr)) @ ''Could not get WebGPU adapter: '' @ cb_message r @ nl\<rparr>)"
  by (simp add: callback_def Let_def put_str_def endl_def)

subsection \<open>deliver\<close>

lemma requestEnded_deliver:
  "requestEnded (userData (deliver b rs fr)) = (rs \<noteq> [] \<or> requestEnded (userData fr))"
  by (induction rs arbitrary: fr) simp_all

lemma flag_log_deliver [simp]:
  "flag_log (deliver b rs fr) = flag_log fr @ replicate (length rs) True"
  by (induction rs arbitrary: fr) (simp_all add: replicate_app_Cons_same)

lemma slept_deliver [simp]: "slept (deliver b rs fr) = slept fr"
  by (induction rs arbitrary: fr) simp_all

lemma calls_deliver [simp]: "calls (env (deliver b rs fr)) = calls (env fr)"
  by (induction rs arbitrary: fr) simp_all

lemma cerr_deliver [simp]: "cerr (env (deliver b rs fr)) = cerr (env fr)"
  by (induction rs arbitrary: fr) simp_all

lemma deliver_Nil_eq: "rs = [] \<Longrightarrow> deliver b rs fr = fr"
  by simp

subsection \<open>The request and the sleeps\<close>

lemma after_sleeps_Suc:
  "after_sleeps b a (Suc n) fr = emscripten_sleep b a 100 (after_sleeps b a n fr)"
  by (induction n arbitrary: fr) simp_all

lemma slept_emscripten_sleep [simp]: "slept (emscripten_sleep b a ms fr) = Suc (slept fr)"
  by (simp add: emscripten_sleep_def)

lemma slept_after_sleeps [simp]: "slept (after_sleeps b a n fr) = slept fr + n"
  by (induction n arbitrary: fr) simp_all

lemma requestEnded_emscripten_sleep:
  "requestEnded (userData (emscripten_sleep b a ms fr)) =
     (deliveries a (Suc (slept fr)) \<noteq> [] \<or> requestEnded (userData fr))"
  by (simp add: emscripten_sleep_def requestEnded_deliver)

lemma requestEnded_after_sleeps:
  "requestEnded (userData (after_sleeps b a n fr)) =
     (requestEnded (userData fr) \<or> (\<exists>k\<in>{slept fr<..slept fr + n}. deliveries a k \<noteq> []))"
proof (induction n)
  case 0
  then show ?case by simp
next
  case (Suc n)
  have "{slept fr<..slept fr + Suc n} = insert (Suc (slept fr + n)) {slept fr<..slept fr + n}"
    by (simp add: set_eq_iff) arith
  then have "(\<exists>k\<in>{slept fr<..slept fr + Suc n}. deliveries a k \<noteq> [])
      = (deliveries a (Suc (slept fr + n)) \<noteq> []
         \<or> (\<exists>k\<in>{slept fr<..slept fr + n}. deliveries a k \<noteq> []))"
    by simp
  moreover have "requestEnded (userData (after_sleeps b a (Suc n) fr))
      = (deliveries a (Suc (slept fr + n)) \<noteq> []
         \<or> requestEnded (userData (after_sleeps b a n fr)))"
    by (simp only: after_sleeps_Suc requestEnded_emscripten_sleep slept_after_sleeps)
  ultimately show ?case
    using Suc by blast
qed

lemma wait_loop_done: "requestEnded (userData fr) \<Longrightarrow> wait_loop b a fr = Some fr"
  by (subst wait_loop.simps) simp

lemma wait_loop_step:
  "\<not> requestEnded (userData fr) \<Longrightarrow> wait_loop b a fr = wait_loop b a (emscripten_sleep b a 100 fr)"
  by (subst wait_loop.simps) simp

lemma wait_loop_unroll:
  "(\<And>j. j < n \<Longrightarrow> \<not> requestEnded (userData (after_sleeps b a j fr))) \<Longrightarrow>
   wait_loop b a fr = wait_loop b a (after_sleeps b a n fr)"
proof (induction n arbitrary: fr)
  case 0
  then show ?case by simp
next
  case (Suc n)
  from Suc.prems [of 0] have nf: "\<not> requestEnded (userData fr)" by simp
  have "wait_loop b a (emscripten_sleep b a 100 fr)
      = wait_loop b a (after_sleeps b a n (emscripten_sleep b a 100 fr))"
  proof (rule Suc.IH)
    fix j assume "j < n"
    then show "\<not> requestEnded (userData (after_sleeps b a j (emscripten_sleep b a 100 fr)))"
      using Suc.prems [of "Suc j"] by simp
  qed
  with nf show ?case by (simp add: wait_loop_step)
qed

lemma wait_loop_returns:
  assumes "requestEnded (userData (after_sleeps b a n fr))"
    and "\<And>j. j < n \<Longrightarrow> \<not> requestEnded (userData (after_sleeps b a j fr))"
  shows "wait_loop b a fr = Some (after_sleeps b a n fr)"
  using wait_loop_unroll [of n b a fr] assms by (simp add: wait_loop_done)

lemma wait_loop_Some:
  "wait_loop b a fr = Some fr' \<Longrightarrow>
   \<exists>n. fr' = after_sleeps b a n fr \<and> requestEnded (userData fr')
        \<and> (\<forall>j<n. \<not> requestEnded (userData (after_sleeps b a j fr)))"
proof (rule wait_loop.raw_induct [where P = "\<lambda>b a fr fr'.
         \<exists>n. fr' = after_sleeps b a n fr \<and> requestEnded (userData fr')
        \<and> (\<forall>j<n. \<not> requestEnded (userData (after_sleeps b a j fr)))"])
  show "wait_loop b a fr = Some fr' \<Longrightarrow> wait_loop b a fr = Some fr'" .
next
  fix f b a fr fr'
  assume IH: "\<And>b a fr fr'. f b a fr = Some fr' \<Longrightarrow>
         \<exists>n. fr' = after_sleeps b a n fr \<and> requestEnded (userData fr')
        \<and> (\<forall>j<n. \<not> requestEnded (userData (after_sleeps b a j fr)))"
    and eq: "(if \<not> requestEnded (userData fr) then f b a (emscripten_sleep b a 100 fr)
      else Some fr) = Some fr'"
  show "\<exists>n. fr' = after_sleeps b a n fr \<and> requestEnded (userData fr')
        \<and> (\<forall>j<n. \<not> requestEnded (userData (after_sleeps b a j fr)))"
  proof (cases "requestEnded (userData fr)")
    case True
    with eq have "fr' = fr" by simp
    with True show ?thesis by (intro exI [of _ 0]) simp
  next
    case False
    with eq have "f b a (emscripten_sleep b a 100 fr) = Some fr'" by simp
    from IH [OF this] obtain n where n: "fr' = after_sleeps b a n (emscripten_sleep b a 100 fr)"
      "requestEnded (userData fr')"
      "\<forall>j<n. \<not> requestEnded (userData (after_sleeps b a j (emscripten_sleep b a 100 fr)))"
      by blast
    have "\<forall>j<Suc n. \<not> requestEnded (userData (after_sleeps b a j fr))"
    proof (intro allI impI)
      fix j assume "j < Suc n"
      then show "\<not> requestEnded (userData (after_sleeps b a j fr))"
        using False n(3) by (cases j) simp_all
    qed
    with n(1,2) show ?thesis by (intro exI [of _ "Suc n"]) simp
  qed
qed

subsection \<open>The report of inspectAdapter\<close>

lemma buf_limits_section:
  "buf (cout (limits_section b a h w)) = buf (cout w) @ limits_text b a h (basefield (cout w))"
  by (simp add: limits_section_def limits_text_def Let_def split: prod.split)

lemma basefield_limits_section [simp]:
  "basefield (cout (limits_section b a h w)) = basefield (cout w)"
  by (simp add: limits_section_def Let_def split: prod.split)

lemma calls_limits_section [simp]:
  "calls (limits_section b a h w) = calls w @ [AdapterGetLimits h]"
  by (simp add: limits_section_def Let_def split: prod.split)

lemma cerr_limits_section [simp]: "cerr (limits_section b a h w) = cerr w"
  by (simp add: limits_section_def Let_def split: prod.split)

lemma buf_features_section:
  "buf (cout (features_section b a h w)) = buf (cout w) @ features_text (getFeatures a h)"
  by (simp add: features_section_def features_text_def Let_def print_features_from)

lemma basefield_features_section [simp]:
  "basefield (cout (features_section b a h w)) = Dec"
  by (simp add: features_section_def Let_def)

lemma calls_features_section:
  "calls (features_section b a h w) = calls w @
     (if EMSCRIPTEN b then [AdapterEnumerateFeatures h False, AdapterEnumerateFeatures h True]
      else [AdapterGetFeatures h, SupportedFeaturesFreeMembers (getFeatures a h)])"
  by (simp add: features_section_def Let_def)

lemma cerr_features_section [simp]: "cerr (features_section b a h w) = cerr w"
  by (simp add: features_section_def Let_def)

lemma buf_properties_section:
  "buf (cout (properties_section a h w)) =
     buf (cout w) @ properties_text (basefield (cout w)) (getInfo a h)"
  by (simp add: properties_section_def properties_text_def Let_def)

lemma basefield_properties_section [simp]:
  "basefield (cout (properties_section a h w)) = Dec"
  by (simp add: properties_section_def Let_def)

lemma calls_properties_section [simp]:
  "calls (properties_section a h w) = calls w @ [AdapterGetInfo h, AdapterInfoFreeMembers (getInfo a h)]"
  by (simp add: properties_section_def Let_def)

lemma cerr_properties_section [simp]: "cerr (properties_section a h w) = cerr w"
  by (simp add: properties_section_def Let_def)

lemma buf_inspectAdapter:
  "buf (cout (inspectAdapter b a h w)) =
     buf (cout w) @ limits_text b a h (basefield (cout w)) @ features_text (getFeatures a h)
       @ properties_text Dec (getInfo a h)"
  by (simp add: inspectAdapter_def buf_properties_section buf_features_section buf_limits_section)

lemma basefield_inspectAdapter: "basefield (cout (inspectAdapter b a h w)) = Dec"
  by (simp add: inspectAdapter_def)

lemma calls_inspectAdapter:
  "calls (inspectAdapter b a h w) = calls w @ inspect_calls b a h"
  by (simp add: inspectAdapter_def inspect_calls_def calls_features_section)

lemma cerr_inspectAdapter: "cerr (inspectAdapter b a h w) = cerr w"
  by (simp add: inspectAdapter_def)

lemma digit_char_lower: "d < 16 \<Longrightarrow> digit_char d \<in> set ''0123456789abcdef''"
  unfolding digit_char_def by (rule nth_mem) simp

lemma digits_Hex_chars: "set (digits Hex n) \<subseteq> set ''0123456789abcdef''"
proof (induction Hex n rule: digits.induct)
  case (1 n)
  show ?case
  proof (cases "n < 16")
    case True
    then show ?thesis using digit_char_lower [of n]
      by (subst digits.simps) simp
  next
    case False
    have "digit_char (n mod 16) \<in> set ''0123456789abcdef''"
      by (rule digit_char_lower) simp
    with False "1.hyps" show ?thesis
      by (subst digits.simps) simp
  qed
qed

subsection \<open>The frames of a request\<close>

lemma reached_0: "reached b a inst w 0 = wgpuInstanceRequestAdapter b a inst (new_frame w)"
  by (simp add: reached_def)

lemma reached_Suc: "reached b a inst w (Suc n) = emscripten_sleep b a 100 (reached b a inst w n)"
  unfolding reached_def by (rule after_sleeps_Suc)

lemma slept_reached [simp]: "slept (reached b a inst w n) = n"
  by (simp add: reached_def wgpuInstanceRequestAdapter_def new_frame_def)

lemma requestEnded_reached:
  "requestEnded (userData (reached b a inst w n)) = (\<exists>k\<le>n. deliveries a k \<noteq> [])"
proof -
  have s0: "slept (wgpuInstanceRequestAdapter b a inst (new_frame w)) = 0"
    by (simp add: wgpuInstanceRequestAdapter_def new_frame_def)
  have r0: "requestEnded (userData (wgpuInstanceRequestAdapter b a inst (new_frame w)))
              = (deliveries a 0 \<noteq> [])"
    by (simp add: wgpuInstanceRequestAdapter_def new_frame_def requestEnded_deliver)
  have "(\<exists>k\<le>n. deliveries a k \<noteq> []) = (deliveries a 0 \<noteq> [] \<or> (\<exists>k\<in>{0<..n}. deliveries a k \<noteq> []))"
    by (metis greaterThanAtMost_iff le0 gr0I)
  then show ?thesis
    by (simp add: reached_def requestEnded_after_sleeps s0 r0)
qed

lemma flag_log_emscripten_sleep:
  "flag_log (emscripten_sleep b a ms fr)
     = flag_log fr @ replicate (length (deliveries a (Suc (slept fr)))) True"
  by (simp add: emscripten_sleep_def)

lemma flag_log_reached:
  "flag_log (reached b a inst w n) = False # replicate (\<Sum>k\<le>n. length (deliveries a k)) True"
proof (induction n)
  case 0
  then show ?case by (simp add: reached_0 wgpuInstanceRequestAdapter_def new_frame_def)
next
  case (Suc n)
  then show ?case
    by (simp add: reached_Suc flag_log_emscripten_sleep replicate_add)
qed

lemma calls_emscripten_sleep:
  "calls (env (emscripten_sleep b a ms fr)) = calls (env fr) @ [EmscriptenSleep ms]"
  by (simp add: emscripten_sleep_def)

lemma cerr_emscripten_sleep: "cerr (env (emscripten_sleep b a ms fr)) = cerr (env fr)"
  by (simp add: emscripten_sleep_def)

lemma calls_reached:
  "calls (env (reached b a inst w n))
     = calls w @ InstanceRequestAdapter inst # replicate n (EmscriptenSleep 100)"
proof (induction n)
  case 0
  then show ?case by (simp add: reached_0 wgpuInstanceRequestAdapter_def new_frame_def)
next
  case (Suc n)
  then show ?case
    by (simp add: reached_Suc calls_emscripten_sleep replicate_append_same)
qed

lemma cerr_reached: "cerr (env (reached b a inst w n)) = cerr w"
proof (induction n)
  case 0
  then show ?case by (simp add: reached_0 wgpuInstanceRequestAdapter_def new_frame_def)
next
  case (Suc n)
  then show ?case by (simp add: reached_Suc cerr_emscripten_sleep)
qed

lemma reached_quiet:
  "(\<And>j. j \<le> n \<Longrightarrow> deliveries a j = []) \<Longrightarrow>
   userData (reached b a inst w n) = \<lparr>adapter = 0, requestEnded = False\<rparr>
   \<and> cout (env (reached b a inst w n)) = cout w"
proof (induction n)
  case 0
  then show ?case by (simp add: reached_0 wgpuInstanceRequestAdapter_def new_frame_def)
next
  case (Suc n)
  then show ?case by (simp add: reached_Suc emscripten_sleep_def)
qed

text \<open>Where the API answers the request with one invocation of the callback, at point \<open>n\<close>.\<close>

lemma reached_single:
  assumes one: "deliveries a n = [r]" and before: "\<And>j. j < n \<Longrightarrow> deliveries a j = []"
  shows "adapter (userData (reached b a inst w n))
           = (if cb_status r = WGPURequestAdapterStatus_Success b then cb_adapter r else 0)"
    and "cout (env (reached b a inst w n))
           = (if cb_status r = WGPURequestAdapterStatus_Success b then cout w
              else (cout w)\<lparr>buf := buf (cout w) @ ''Could not get WebGPU adapter: ''
                                   @ cb_message r @ nl\<rparr>)"
proof -
  have "adapter (userData (reached b a inst w n))
           = (if cb_status r = WGPURequestAdapterStatus_Success b then cb_adapter r else 0)
     \<and> cout (env (reached b a inst w n))
           = (if cb_status r = WGPURequestAdapterStatus_Success b then cout w
              else (cout w)\<lparr>buf := buf (cout w) @ ''Could not get WebGPU adapter: ''
                                   @ cb_message r @ nl\<rparr>)"
  proof (cases n)
    case 0
    with one show ?thesis
      by (simp add: reached_0 wgpuInstanceRequestAdapter_def new_frame_def adapter_callback
          cout_callback)
  next
    case (Suc m)
    have q: "userData (reached b a inst w m) = \<lparr>adapter = 0, requestEnded = False\<rparr>
        \<and> cout (env (reached b a inst w m)) = cout w"
      by (rule reached_quiet) (simp add: before Suc)
    from one Suc have "deliveries a (Suc m) = [r]" by simp
    with q show ?thesis unfolding Suc
      by (simp add: reached_Suc emscripten_sleep_def adapter_callback cout_callback)
  qed
  then show "adapter (userData (reached b a inst w n))
           = (if cb_status r = WGPURequestAdapterStatus_Success b then cb_adapter r else 0)"
    and "cout (env (reached b a inst w n))
           = (if cb_status r = WGPURequestAdapterStatus_Success b then cout w
              else (cout w)\<lparr>buf := buf (cout w) @ ''Could not get WebGPU adapter: ''
                                   @ cb_message r @ nl\<rparr>)"
    by simp_all
qed

lemma requestAdapterSync_Inr:
  assumes "requestAdapterSync b a inst w = Some (Inr (h, fr))"
  shows "\<exists>n. fr = reached b a inst w n \<and> h = adapter (userData fr)
             \<and> requestEnded (userData fr) \<and> (EMSCRIPTEN b \<or> n = 0)"
proof (cases "EMSCRIPTEN b")
  case True
  with assms obtain fr0 where
    w: "wait_loop b a (wgpuInstanceRequestAdapter b a inst (new_frame w)) = Some fr0"
    and r: "(if \<not> requestEnded (userData fr0) then Some (Inl (AssertionFailed, env fr0))
             else Some (Inr (adapter (userData fr0), fr0))) = Some (Inr (h, fr))"
    by (auto simp: requestAdapterSync_def split: option.splits)
  from r have "fr0 = fr" "h = adapter (userData fr)" "requestEnded (userData fr)"
    by (auto split: if_splits)
  moreover from wait_loop_Some [OF w] obtain n where "fr0 = reached b a inst w n"
    by (auto simp: reached_def)
  ultimately show ?thesis using True by blast
next
  case False
  with assms have "fr = reached b a inst w 0" "h = adapter (userData fr)"
    "requestEnded (userData fr)"
    by (auto simp: requestAdapterSync_def reached_0 split: if_splits)
  then show ?thesis by blast
qed

lemma requestAdapterSync_returns:
  assumes "deliveries a n \<noteq> []" and "\<And>j. j < n \<Longrightarrow> deliveries a j = []"
    and "EMSCRIPTEN b \<or> n = 0"
  shows "requestAdapterSync b a inst w
           = Some (Inr (adapter (userData (reached b a inst w n)), reached b a inst w n))"
proof -
  have e: "requestEnded (userData (reached b a inst w n))"
    using assms(1) by (auto simp: requestEnded_reached)
  have ne: "\<not> requestEnded (userData (reached b a inst w j))" if "j < n" for j
    using that assms(2) by (simp add: requestEnded_reached)
  show ?thesis
  proof (cases "EMSCRIPTEN b")
    case True
    have "wait_loop b a (wgpuInstanceRequestAdapter b a inst (new_frame w))
            = Some (reached b a inst w n)"
      unfolding reached_def
      by (rule wait_loop_returns) (use e ne in \<open>simp_all add: reached_def\<close>)
    with True e show ?thesis by (simp add: requestAdapterSync_def)
  next
    case False
    with assms(3) have "n = 0" by simp
    with False e show ?thesis by (simp add: requestAdapterSync_def reached_0)
  qed
qed

text \<open>The two ways a call does not return: it waits for ever, or the assertion fails.\<close>

lemma requestAdapterSync_hangs:
  assumes "EMSCRIPTEN b" and "\<And>k. deliveries a k = []"
  shows "requestAdapterSync b a inst w = None"
proof (cases "wait_loop b a (wgpuInstanceRequestAdapter b a inst (new_frame w))")
  case None
  with assms(1) show ?thesis by (simp add: requestAdapterSync_def)
next
  case (Some fr)
  from wait_loop_Some [OF Some] obtain n where
    "fr = reached b a inst w n" "requestEnded (userData fr)"
    by (auto simp: reached_def)
  then have False using assms(2) by (simp add: requestEnded_reached)
  then show ?thesis ..
qed

lemma requestAdapterSync_assertion_fails:
  assumes "\<not> EMSCRIPTEN b" and "deliveries a 0 = []"
  shows "requestAdapterSync b a inst w
           = Some (Inl (AssertionFailed, call (InstanceRequestAdapter inst) w))"
  using assms
  by (simp add: requestAdapterSync_def wgpuInstanceRequestAdapter_def new_frame_def)

lemma requestAdapterSync_not_Inl:
  "EMSCRIPTEN b \<Longrightarrow> requestAdapterSync b a inst w \<noteq> Some (Inl e)"
proof
  assume em: "EMSCRIPTEN b" and eq: "requestAdapterSync b a inst w = Some (Inl e)"
  then obtain fr0 where
    w: "wait_loop b a (wgpuInstanceRequestAdapter b a inst (new_frame w)) = Some fr0"
    and r: "\<not> requestEnded (userData fr0)"
    by (auto simp: requestAdapterSync_def split: option.splits if_splits)
  from wait_loop_Some [OF w] r show False by blast
qed

subsection \<open>main\<close>

lemma main_null_instance:
  "createInstance a = 0 \<Longrightarrow>
   main b a w = Some (Exit 1,
     on_cerr (seq [put_str ''Could not initialize WebGPU!'', endl]) (call CreateInstance w))"
  by (simp add: main_def wgpuCreateInstance_def)

lemma main_after_request:
  assumes "createInstance a \<noteq> 0"
    and "requestAdapterSync b a (createInstance a) (before_request b a w) = Some (Inr (h, fr))"
  shows "main b a w = Some (Exit 0,
           call (AdapterRelease h) (call (InstanceRelease (createInstance a))
             (inspectAdapter b a h (on_cout (seq [put_str ''Got adapter: '', put_ptr b h, endl]) (env fr)))))"
  using assms by (simp add: main_def wgpuCreateInstance_def before_request_def Let_def)

lemma calls_before_request: "calls (before_request b a w) = calls w @ [CreateInstance]"
  by (simp add: before_request_def)

lemma single_delivery_returns:
  assumes "deliveries a n = [r]" and "\<And>j. j < n \<Longrightarrow> deliveries a j = []"
    and "EMSCRIPTEN b \<or> n = 0"
  shows "requestAdapterSync b a inst w
           = Some (Inr (if cb_status r = WGPURequestAdapterStatus_Success b then cb_adapter r else 0,
                        reached b a inst w n))"
proof -
  have "deliveries a n \<noteq> []" using assms(1) by simp
  from requestAdapterSync_returns [OF this assms(2,3)] reached_single(1) [OF assms(1,2)]
  show ?thesis by simp
qed

lemma digits_small: "n < radix f \<Longrightarrow> digits f n = [digit_char n]"
  by (subst digits.simps) simp

lemma digits_large:
  "\<not> n < radix f \<Longrightarrow> digits f n = digits f (n div radix f) @ [digit_char (n mod radix f)]"
  by (subst digits.simps) simp




subsection \<open>Runs of main and of the stubs\<close>

lemma main_trace:
  assumes "createInstance a \<noteq> 0"
    and "requestAdapterSync b a (createInstance a) (before_request b a w) = Some (Inr (h, fr))"
  shows "\<exists>w' n. main b a w = Some (Exit 0, w') \<and> (EMSCRIPTEN b \<or> n = 0)
           \<and> calls w' = calls w @ [CreateInstance, InstanceRequestAdapter (createInstance a)]
                @ replicate n (EmscriptenSleep 100) @ inspect_calls b a h
                @ [InstanceRelease (createInstance a), AdapterRelease h]"
proof -
  from requestAdapterSync_Inr [OF assms(2)] obtain n where
    n: "fr = reached b a (createInstance a) (before_request b a w) n" "EMSCRIPTEN b \<or> n = 0"
    by blast
  have "calls (env fr) = calls w @ [CreateInstance, InstanceRequestAdapter (createInstance a)]
          @ replicate n (EmscriptenSleep 100)"
    by (simp add: n(1) calls_reached calls_before_request)
  then show ?thesis
    using main_after_request [OF assms] n(2)
    by (simp add: calls_inspectAdapter)
qed

lemma last_flags: "last (False # replicate m True) = (m \<noteq> 0)"
  by (cases m) simp_all

lemma fired_iff_count:
  "(\<exists>k\<le>n. deliveries a k \<noteq> []) = ((\<Sum>k\<le>n. length (deliveries a k)) \<noteq> 0)"
  by auto

lemma stub_deliveries:
  "deliveries (stub_api n r) n = [r]" "j < n \<Longrightarrow> deliveries (stub_api n r) j = []"
  by (simp_all add: stub_api_def)

lemma request_report_single:
  assumes "deliveries a n = [r]" and "\<And>j. j < n \<Longrightarrow> deliveries a j = []"
    and "EMSCRIPTEN b \<or> n = 0"
  shows "request_report b a inst w
           = Some (if cb_status r = WGPURequestAdapterStatus_Success b then (cb_adapter r, [])
                   else (0, ''Could not get WebGPU adapter: '' @ cb_message r @ nl))"
  using single_delivery_returns [OF assms, of inst w] reached_single(2) [OF assms(1,2), of b inst w]
  by (simp add: request_report_def)

lemma main_single_delivery:
  assumes "createInstance a \<noteq> 0" and "deliveries a n = [r]"
    and "\<And>j. j < n \<Longrightarrow> deliveries a j = []" and "EMSCRIPTEN b \<or> n = 0"
  shows "main b a w = Some (Exit 0,
           call (AdapterRelease (if cb_status r = WGPURequestAdapterStatus_Success b
                                 then cb_adapter r else 0))
             (call (InstanceRelease (createInstance a))
               (inspectAdapter b a
                  (if cb_status r = WGPURequestAdapterStatus_Success b then cb_adapter r else 0)
                  (on_cout (seq [put_str ''Got adapter: '',
                     put_ptr b (if cb_status r = WGPURequestAdapterStatus_Success b
                                then cb_adapter r else 0), endl])
                     (env (reached b a (createInstance a) (before_request b a w) n))))))"
  by (rule main_after_request [OF assms(1) single_delivery_returns [OF assms(2,3,4)]])

lemma stub_createInstance: "createInstance (stub_api n r) = 4096"
  by (simp add: stub_api_def)

lemma stub_getFeatures: "getFeatures (stub_api n r) h = [1, 42]"
  by (simp add: stub_api_def)

lemma stub_getInfo: "getInfo (stub_api n r) h = stub_info"
  by (simp add: stub_api_def)

lemma native_build_simps:
  "EMSCRIPTEN native_build = False" "WGPURequestAdapterStatus_Success native_build = 1"
  by (simp_all add: native_build_def)

lemma browser_build_simps:
  "EMSCRIPTEN browser_build = True" "WGPURequestAdapterStatus_Success browser_build = 1"
  by (simp_all add: browser_build_def native_build_def)

lemma success_result_simps:
  "cb_status success_result = 1" "cb_adapter success_result = 8192"
  by (simp_all add: success_result_def)

lemma failure_result_simps:
  "cb_status (failure_result s) = s" "cb_adapter (failure_result s) = 0"
  "cb_message (failure_result s) = ''no gpu''"
  by (simp_all add: failure_result_def)

lemma stub_request_success:
  "requestAdapterSync native_build (stub_api 0 success_result) 4096 w
     = Some (Inr (8192, reached native_build (stub_api 0 success_result) 4096 w 0))"
  using single_delivery_returns [of "stub_api 0 success_result" 0 success_result native_build 4096 w]
  by (simp add: stub_deliveries success_result_simps native_build_simps)

lemma stub_request_failure:
  "requestAdapterSync native_build (stub_api 0 (failure_result 3)) 4096 w
     = Some (Inr (0, reached native_build (stub_api 0 (failure_result 3)) 4096 w 0))"
  using single_delivery_returns [of "stub_api 0 (failure_result 3)" 0 "failure_result 3"
      native_build 4096 w]
  by (simp add: stub_deliveries failure_result_simps native_build_simps)

section \<open>The adapter request\<close>

text \<open>
  C1: \<open>requestAdapterSync\<close> never returns before the completion callback has fired. On
  every return, in both builds, the completion flag of \<open>userData\<close> is true, the handle
  returned is the one stored in \<open>userData\<close>, and the API has invoked the callback at or
  before the last point the call reached. In the browser-hosted build the assertion is
  never what ends the call: the polling loop is left only with the flag true.
\<close>

theorem requestAdapterSync_returns_completed:
  "(requestAdapterSync b a inst w = Some (Inr (h, fr)) \<longrightarrow>
      requestEnded (userData fr) \<and> h = adapter (userData fr)
      \<and> (\<exists>k \<le> slept fr. deliveries a k \<noteq> []))
   \<and> (EMSCRIPTEN b \<longrightarrow> (\<forall>e. requestAdapterSync b a inst w \<noteq> Some (Inl e)))"
proof (intro conjI impI allI)
  assume r: "requestAdapterSync b a inst w = Some (Inr (h, fr))"
  from requestAdapterSync_Inr [OF r] obtain n where
    n: "fr = reached b a inst w n" "h = adapter (userData fr)" "requestEnded (userData fr)"
    by blast
  from n(3) show "requestEnded (userData fr)" .
  from n(2) show "h = adapter (userData fr)" .
  from n(1,3) show "\<exists>k \<le> slept fr. deliveries a k \<noteq> []"
    by (simp add: requestEnded_reached)
next
  fix e assume "EMSCRIPTEN b"
  then show "requestAdapterSync b a inst w \<noteq> Some (Inl e)"
    by (rule requestAdapterSync_not_Inl)
qed

theorem requestAdapterSync_returns_completed_witness:
  "requestAdapterSync browser_build (stub_api 2 success_result) 4096 initial_world
     = Some (Inr (8192, reached browser_build (stub_api 2 success_result) 4096 initial_world 2))
   \<and> requestEnded (userData (reached browser_build (stub_api 2 success_result) 4096 initial_world 2))
   \<and> EMSCRIPTEN browser_build
   \<and> requestAdapterSync browser_build (stub_api 2 success_result) 4096 initial_world
       \<noteq> Some (Inl (AssertionFailed, initial_world))"
proof -
  have em: "EMSCRIPTEN browser_build"
    by (simp add: browser_build_def)
  have r: "requestAdapterSync browser_build (stub_api 2 success_result) 4096 initial_world
     = Some (Inr (8192, reached browser_build (stub_api 2 success_result) 4096 initial_world 2))"
    using single_delivery_returns [of "stub_api 2 success_result" 2 success_result browser_build
        4096 initial_world] em
    by (simp add: stub_deliveries success_result_def browser_build_def native_build_def)
  show ?thesis
    using requestAdapterSync_returns_completed [of browser_build "stub_api 2 success_result" 4096
        initial_world 8192 "reached browser_build (stub_api 2 success_result) 4096 initial_world 2"]
      r em
    by simp
qed

text \<open>
  C8: within one call of \<open>requestAdapterSync\<close> the completion flag starts false; the only
  assignments to it are those of the callback, which all write true; so at every point the
  call reaches (\<open>reached b a inst w n\<close>, for every \<open>n\<close>, whether or not the call returns)
  the flag has gone from false to true at most once and was never reset, and its current
  value is the last one written. The call issues exactly one adapter request: the calls
  it has made are one \<^verbatim>\<open>wgpuInstanceRequestAdapter\<close> followed by sleeps only. Every frame a
  call returns with is one of these points.
\<close>

theorem completion_flag_history:
  "flag_log (new_frame w) = [False]
   \<and> requestEnded (userData (callback b r fr0))
   \<and> flag_log (reached b a inst w n)
       = False # replicate (\<Sum>k\<le>n. length (deliveries a k)) True
   \<and> requestEnded (userData (reached b a inst w n)) = last (flag_log (reached b a inst w n))
   \<and> calls (env (reached b a inst w n))
       = calls w @ InstanceRequestAdapter inst # replicate n (EmscriptenSleep 100)
   \<and> (requestAdapterSync b a inst w = Some (Inr (h, fr)) \<longrightarrow>
        (\<exists>m. fr = reached b a inst w m \<and> (EMSCRIPTEN b \<or> m = 0)))"
proof (intro conjI impI)
  show "flag_log (new_frame w) = [False]"
    by (simp add: new_frame_def)
  show "requestEnded (userData (callback b r fr0))"
    by simp
  show "flag_log (reached b a inst w n)
       = False # replicate (\<Sum>k\<le>n. length (deliveries a k)) True"
    by (rule flag_log_reached)
  show "requestEnded (userData (reached b a inst w n)) = last (flag_log (reached b a inst w n))"
    by (simp only: flag_log_reached last_flags requestEnded_reached fired_iff_count)
  show "calls (env (reached b a inst w n))
       = calls w @ InstanceRequestAdapter inst # replicate n (EmscriptenSleep 100)"
    by (rule calls_reached)
next
  assume "requestAdapterSync b a inst w = Some (Inr (h, fr))"
  from requestAdapterSync_Inr [OF this]
  show "\<exists>m. fr = reached b a inst w m \<and> (EMSCRIPTEN b \<or> m = 0)"
    by blast
qed

theorem completion_flag_history_witness:
  "flag_log (reached browser_build (stub_api 2 success_result) 4096 initial_world 1) = [False]
   \<and> flag_log (reached browser_build (stub_api 2 success_result) 4096 initial_world 2)
       = [False, True]
   \<and> requestAdapterSync browser_build (stub_api 2 success_result) 4096 initial_world
       = Some (Inr (8192, reached browser_build (stub_api 2 success_result) 4096 initial_world 2))
   \<and> calls (env (reached browser_build (stub_api 2 success_result) 4096 initial_world 2))
       = [InstanceRequestAdapter 4096, EmscriptenSleep 100, EmscriptenSleep 100]"
proof -
  have r: "requestAdapterSync browser_build (stub_api 2 success_result) 4096 initial_world
     = Some (Inr (8192, reached browser_build (stub_api 2 success_result) 4096 initial_world 2))"
    using single_delivery_returns [of "stub_api 2 success_result" 2 success_result browser_build
        4096 initial_world]
    by (simp add: stub_deliveries success_result_def browser_build_def native_build_def)
  have s1: "(\<Sum>k\<le>Suc 0. length (deliveries (stub_api 2 success_result) k)) = 0"
    by (simp add: stub_api_def)
  have s2: "(\<Sum>k\<le>2. length (deliveries (stub_api 2 success_result) k)) = 1"
    by (simp add: stub_api_def eval_nat_numeral)
  show ?thesis
    using completion_flag_history [of initial_world browser_build success_result
        "new_frame initial_world" "stub_api 2 success_result" 4096 1 8192
        "reached browser_build (stub_api 2 success_result) 4096 initial_world 2"]
      completion_flag_history [of initial_world browser_build success_result
        "new_frame initial_world" "stub_api 2 success_result" 4096 2 8192
        "reached browser_build (stub_api 2 success_result) 4096 initial_world 2"]
      r s1 s2
    by (simp add: initial_world_def eval_nat_numeral)
qed

text \<open>
  C2, as amended: where the API answers the request with one invocation of the callback,
  \<open>requestAdapterSync\<close> returns; the handle it returns is the stored one, which is the
  handle the callback passed if it reported success and null otherwise, so it is non-null
  exactly when the callback reported success with a non-null handle. On a failed request
  it writes \<^verbatim>\<open>Could not get WebGPU adapter: \<close>, the failure message the callback provided
  and a newline, and nothing else: the status is not written. A successful request writes
  nothing.
\<close>

theorem requestAdapterSync_result:
  assumes "deliveries a n = [r]" and "\<forall>j<n. deliveries a j = []" and "EMSCRIPTEN b \<or> n = 0"
  shows "\<exists>fr. requestAdapterSync b a inst w = Some (Inr (adapter (userData fr), fr))
           \<and> adapter (userData fr)
               = (if cb_status r = WGPURequestAdapterStatus_Success b then cb_adapter r else 0)
           \<and> (adapter (userData fr) \<noteq> 0
                \<longleftrightarrow> cb_status r = WGPURequestAdapterStatus_Success b \<and> cb_adapter r \<noteq> 0)
           \<and> buf (cout (env fr))
               = buf (cout w)
                 @ (if cb_status r = WGPURequestAdapterStatus_Success b then []
                    else ''Could not get WebGPU adapter: '' @ cb_message r @ nl)
           \<and> basefield (cout (env fr)) = basefield (cout w)
           \<and> cerr (env fr) = cerr w"
proof -
  from assms(2) have before: "\<And>j. j < n \<Longrightarrow> deliveries a j = []" by blast
  have ne: "deliveries a n \<noteq> []" using assms(1) by simp
  let ?fr = "reached b a inst w n"
  have "requestAdapterSync b a inst w = Some (Inr (adapter (userData ?fr), ?fr))"
    by (rule requestAdapterSync_returns [OF ne before assms(3)])
  moreover have ad: "adapter (userData ?fr)
      = (if cb_status r = WGPURequestAdapterStatus_Success b then cb_adapter r else 0)"
    by (rule reached_single(1) [OF assms(1) before])
  moreover have "adapter (userData ?fr) \<noteq> 0
      \<longleftrightarrow> cb_status r = WGPURequestAdapterStatus_Success b \<and> cb_adapter r \<noteq> 0"
    by (simp add: ad)
  moreover have "buf (cout (env ?fr)) = buf (cout w)
                 @ (if cb_status r = WGPURequestAdapterStatus_Success b then []
                    else ''Could not get WebGPU adapter: '' @ cb_message r @ nl)"
    by (simp add: reached_single(2) [OF assms(1) before])
  moreover have "basefield (cout (env ?fr)) = basefield (cout w)"
    by (simp add: reached_single(2) [OF assms(1) before])
  moreover have "cerr (env ?fr) = cerr w"
    by (rule cerr_reached)
  ultimately show ?thesis by blast
qed

theorem requestAdapterSync_result_witness:
  "deliveries (stub_api 2 (failure_result 3)) 2 = [failure_result 3]
   \<and> deliveries (stub_api 2 (failure_result 3)) 0 = []
   \<and> deliveries (stub_api 2 (failure_result 3)) 1 = []
   \<and> EMSCRIPTEN browser_build
   \<and> (\<exists>fr. requestAdapterSync browser_build (stub_api 2 (failure_result 3)) 4096 initial_world
               = Some (Inr (0, fr))
            \<and> adapter (userData fr) = 0
            \<and> buf (cout (env fr)) = ''Could not get WebGPU adapter: no gpu'' @ nl)"
proof -
  have h1: "deliveries (stub_api 2 (failure_result 3)) 2 = [failure_result 3]"
    by (simp add: stub_api_def)
  have h2: "\<forall>j<2. deliveries (stub_api 2 (failure_result 3)) j = []"
    by (simp add: stub_api_def)
  have h3: "EMSCRIPTEN browser_build \<or> (2::nat) = 0"
    by (simp add: browser_build_simps)
  from requestAdapterSync_result [OF h1 h2 h3, of 4096 initial_world]
  obtain fr where fr:
    "requestAdapterSync browser_build (stub_api 2 (failure_result 3)) 4096 initial_world
       = Some (Inr (adapter (userData fr), fr))"
    "adapter (userData fr)
       = (if cb_status (failure_result 3) = WGPURequestAdapterStatus_Success browser_build
          then cb_adapter (failure_result 3) else 0)"
    "buf (cout (env fr)) = buf (cout initial_world)
       @ (if cb_status (failure_result 3) = WGPURequestAdapterStatus_Success browser_build then []
          else ''Could not get WebGPU adapter: '' @ cb_message (failure_result 3) @ nl)"
    by blast
  have z: "adapter (userData fr) = 0"
    using fr(2) by (simp add: failure_result_simps browser_build_simps)
  have t: "buf (cout (env fr)) = ''Could not get WebGPU adapter: no gpu'' @ nl"
    using fr(3) by (simp add: failure_result_simps browser_build_simps initial_world_def)
  have q: "deliveries (stub_api 2 (failure_result 3)) 0 = []"
    "deliveries (stub_api 2 (failure_result 3)) 1 = []"
    by (simp_all add: stub_api_def)
  from fr(1) z t h1 q show ?thesis
    by (auto simp: browser_build_simps)
qed

text \<open>
  C2 as stated fails: for a request that fails with status 3 the text written is the
  fixed prefix and the message, the same text as for status 4, and the digit of neither
  status occurs in it.
\<close>

theorem requestAdapterSync_status_counterexample:
  "request_report native_build (stub_api 0 (failure_result 3)) 4096 initial_world
     = Some (0, ''Could not get WebGPU adapter: no gpu'' @ nl)
   \<and> request_report native_build (stub_api 0 (failure_result 4)) 4096 initial_world
     = Some (0, ''Could not get WebGPU adapter: no gpu'' @ nl)
   \<and> CHR ''3'' \<notin> set (''Could not get WebGPU adapter: no gpu'' @ nl)
   \<and> CHR ''4'' \<notin> set (''Could not get WebGPU adapter: no gpu'' @ nl)"
proof (intro conjI)
  show "request_report native_build (stub_api 0 (failure_result 3)) 4096 initial_world
     = Some (0, ''Could not get WebGPU adapter: no gpu'' @ nl)"
    using request_report_single [of "stub_api 0 (failure_result 3)" 0 "failure_result 3"
        native_build 4096 initial_world]
    by (simp add: stub_deliveries) (simp add: failure_result_def native_build_def)
  show "request_report native_build (stub_api 0 (failure_result 4)) 4096 initial_world
     = Some (0, ''Could not get WebGPU adapter: no gpu'' @ nl)"
    using request_report_single [of "stub_api 0 (failure_result 4)" 0 "failure_result 4"
        native_build 4096 initial_world]
    by (simp add: stub_deliveries) (simp add: failure_result_def native_build_def)
  show "CHR ''3'' \<notin> set (''Could not get WebGPU adapter: no gpu'' @ nl)"
    by (simp add: nl_def)
  show "CHR ''4'' \<notin> set (''Could not get WebGPU adapter: no gpu'' @ nl)"
    by (simp add: nl_def)
qed

section \<open>The entry point\<close>

text \<open>
  C3, as amended: once the adapter request has returned, whatever handle it returned,
  \<open>main\<close> releases the instance unconditionally, and it does so after the inspection of
  the adapter and before the release of the adapter: the calls of a run are the creation
  of the instance, the request (and the sleeps of the waiting loop), the calls of the
  inspection, the release of the instance, the release of the adapter.
\<close>

theorem main_release_order:
  assumes "createInstance a \<noteq> 0"
    and "requestAdapterSync b a (createInstance a) (before_request b a w) = Some (Inr (h, fr))"
  shows "(\<exists>w' n. main b a w = Some (Exit 0, w') \<and> (EMSCRIPTEN b \<or> n = 0)
            \<and> calls w' = calls w @ [CreateInstance, InstanceRequestAdapter (createInstance a)]
                 @ replicate n (EmscriptenSleep 100) @ inspect_calls b a h
                 @ [InstanceRelease (createInstance a), AdapterRelease h])
         \<and> calls (inspectAdapter b a h w0) = calls w0 @ inspect_calls b a h"
  using main_trace [OF assms] by (simp add: calls_inspectAdapter)

theorem main_release_order_witness:
  "createInstance (stub_api 0 (failure_result 3)) \<noteq> 0
   \<and> requestAdapterSync native_build (stub_api 0 (failure_result 3))
        (createInstance (stub_api 0 (failure_result 3)))
        (before_request native_build (stub_api 0 (failure_result 3)) initial_world)
       = Some (Inr (0, reached native_build (stub_api 0 (failure_result 3)) 4096
                         (before_request native_build (stub_api 0 (failure_result 3)) initial_world) 0))
   \<and> (\<exists>w'. main native_build (stub_api 0 (failure_result 3)) initial_world = Some (Exit 0, w')
          \<and> calls w' = [CreateInstance, InstanceRequestAdapter 4096, AdapterGetLimits 0,
                         AdapterGetFeatures 0, SupportedFeaturesFreeMembers [1, 42],
                         AdapterGetInfo 0, AdapterInfoFreeMembers stub_info,
                         InstanceRelease 4096, AdapterRelease 0])"
proof -
  have h1: "createInstance (stub_api 0 (failure_result 3)) \<noteq> 0"
    by (simp add: stub_createInstance)
  have h2: "requestAdapterSync native_build (stub_api 0 (failure_result 3))
        (createInstance (stub_api 0 (failure_result 3)))
        (before_request native_build (stub_api 0 (failure_result 3)) initial_world)
       = Some (Inr (0, reached native_build (stub_api 0 (failure_result 3)) 4096
                         (before_request native_build (stub_api 0 (failure_result 3)) initial_world) 0))"
    by (simp add: stub_createInstance stub_request_failure)
  from main_release_order [OF h1 h2] h1 h2 show ?thesis
    by (simp add: stub_createInstance stub_getFeatures stub_getInfo inspect_calls_def
        native_build_simps initial_world_def)
qed

text \<open>
  C3 as stated fails: in the run against the stub that succeeds at every step the
  instance is released after the calls of the inspection, not before them.
\<close>

theorem main_release_order_counterexample:
  "map_option (calls \<circ> snd) (main native_build (stub_api 0 success_result) initial_world)
     = Some [CreateInstance, InstanceRequestAdapter 4096, AdapterGetLimits 8192,
             AdapterGetFeatures 8192, SupportedFeaturesFreeMembers [1, 42],
             AdapterGetInfo 8192, AdapterInfoFreeMembers stub_info,
             InstanceRelease 4096, AdapterRelease 8192]"
proof -
  have "main native_build (stub_api 0 success_result) initial_world = Some (Exit 0,
          call (AdapterRelease 8192) (call (InstanceRelease 4096)
            (inspectAdapter native_build (stub_api 0 success_result) 8192
               (on_cout (seq [put_str ''Got adapter: '', put_ptr native_build 8192, endl])
                  (env (reached native_build (stub_api 0 success_result) 4096
                     (before_request native_build (stub_api 0 success_result) initial_world) 0))))))"
    using main_after_request [of "stub_api 0 success_result" native_build initial_world 8192
        "reached native_build (stub_api 0 success_result) 4096
           (before_request native_build (stub_api 0 success_result) initial_world) 0"]
    by (simp add: stub_createInstance stub_request_success)
  then show ?thesis
    by (simp add: calls_inspectAdapter calls_reached calls_before_request inspect_calls_def
        stub_getFeatures stub_getInfo native_build_simps initial_world_def)
qed

text \<open>
  C4: if instance creation returns null, \<open>main\<close> writes the error to \<^verbatim>\<open>std::cerr\<close> and ends
  with exit status 1, having made no other call and written nothing to \<^verbatim>\<open>std::cout\<close>. If
  the instance is created and the API answers the adapter request with one invocation of
  the callback (at once in the native build, after any number of sleeps in the
  browser-hosted one), \<open>main\<close> ends with exit status 0 and the releases it has made are one
  of the instance and one of the adapter handle the request returned.
\<close>

theorem main_exit_status:
  "(createInstance a = 0 \<longrightarrow>
      (\<exists>w'. main b a w = Some (Exit 1, w') \<and> cout w' = cout w
           \<and> buf (cerr w') = buf (cerr w) @ ''Could not initialize WebGPU!'' @ nl
           \<and> new_calls w w' = [CreateInstance]))
   \<and> (createInstance a \<noteq> 0 \<and> deliveries a n = [r] \<and> (\<forall>j<n. deliveries a j = [])
        \<and> (EMSCRIPTEN b \<or> n = 0) \<longrightarrow>
      (\<exists>w'. main b a w = Some (Exit 0, w')
           \<and> filter is_release (new_calls w w')
               = [InstanceRelease (createInstance a),
                  AdapterRelease (if cb_status r = WGPURequestAdapterStatus_Success b
                                  then cb_adapter r else 0)]))"
proof (intro conjI impI)
  assume "createInstance a = 0"
  from main_null_instance [OF this, of b w]
  show "\<exists>w'. main b a w = Some (Exit 1, w') \<and> cout w' = cout w
           \<and> buf (cerr w') = buf (cerr w) @ ''Could not initialize WebGPU!'' @ nl
           \<and> new_calls w w' = [CreateInstance]"
    by (simp add: new_calls_def)
next
  assume h: "createInstance a \<noteq> 0 \<and> deliveries a n = [r] \<and> (\<forall>j<n. deliveries a j = [])
        \<and> (EMSCRIPTEN b \<or> n = 0)"
  let ?h = "if cb_status r = WGPURequestAdapterStatus_Success b then cb_adapter r else 0"
  from h have r: "requestAdapterSync b a (createInstance a) (before_request b a w)
      = Some (Inr (?h, reached b a (createInstance a) (before_request b a w) n))"
    by (intro single_delivery_returns) simp_all
  from h have "createInstance a \<noteq> 0" by simp
  from main_trace [OF this r] obtain w' m where
    m: "main b a w = Some (Exit 0, w')"
       "calls w' = calls w @ [CreateInstance, InstanceRequestAdapter (createInstance a)]
                @ replicate m (EmscriptenSleep 100) @ inspect_calls b a ?h
                @ [InstanceRelease (createInstance a), AdapterRelease ?h]"
    by blast
  have "filter is_release (new_calls w w') = [InstanceRelease (createInstance a), AdapterRelease ?h]"
    unfolding new_calls_def m(2) by (simp add: inspect_calls_def)
  with m(1) show "\<exists>w'. main b a w = Some (Exit 0, w')
           \<and> filter is_release (new_calls w w') = [InstanceRelease (createInstance a), AdapterRelease ?h]"
    by blast
qed

theorem main_exit_status_witness:
  "createInstance ((stub_api 0 success_result)\<lparr>createInstance := 0\<rparr>) = 0
   \<and> (\<exists>w'. main native_build ((stub_api 0 success_result)\<lparr>createInstance := 0\<rparr>) initial_world
               = Some (Exit 1, w')
          \<and> buf (cout w') = []
          \<and> buf (cerr w') = ''Could not initialize WebGPU!'' @ nl
          \<and> calls w' = [CreateInstance])
   \<and> createInstance (stub_api 0 success_result) \<noteq> 0
   \<and> deliveries (stub_api 0 success_result) 0 = [success_result]
   \<and> (\<exists>w'. main native_build (stub_api 0 success_result) initial_world = Some (Exit 0, w')
          \<and> filter is_release (new_calls initial_world w')
              = [InstanceRelease 4096, AdapterRelease 8192])"
proof -
  have n: "createInstance ((stub_api 0 success_result)\<lparr>createInstance := 0\<rparr>) = 0"
    by simp
  have s: "createInstance (stub_api 0 success_result) \<noteq> 0
      \<and> deliveries (stub_api 0 success_result) 0 = [success_result]
      \<and> (\<forall>j<0. deliveries (stub_api 0 success_result) j = [])
      \<and> (EMSCRIPTEN native_build \<or> (0::nat) = 0)"
    by (simp add: stub_createInstance stub_deliveries)
  from main_exit_status [of "(stub_api 0 success_result)\<lparr>createInstance := 0\<rparr>" native_build
      initial_world 0 success_result] n
  have null: "\<exists>w'. main native_build ((stub_api 0 success_result)\<lparr>createInstance := 0\<rparr>)
                 initial_world = Some (Exit 1, w')
          \<and> buf (cout w') = []
          \<and> buf (cerr w') = ''Could not initialize WebGPU!'' @ nl
          \<and> calls w' = [CreateInstance]"
    by (auto simp: new_calls_def initial_world_def)
  from main_exit_status [of "stub_api 0 success_result" native_build initial_world 0
      success_result] s
  have ok: "\<exists>w'. main native_build (stub_api 0 success_result) initial_world = Some (Exit 0, w')
          \<and> filter is_release (new_calls initial_world w')
              = [InstanceRelease 4096, AdapterRelease 8192]"
    by (simp add: stub_createInstance success_result_simps native_build_simps)
  from n null s ok show ?thesis by blast
qed

text \<open>
  C9: \<open>main\<close> passes whatever handle the request returned to \<open>inspectAdapter\<close>, with no
  test of it; where the request failed that handle is null, and the null handle is
  inspected (and then released).
\<close>

theorem main_inspects_unconditionally:
  "(createInstance a \<noteq> 0
      \<and> requestAdapterSync b a (createInstance a) (before_request b a w) = Some (Inr (h, fr)) \<longrightarrow>
    main b a w = Some (Exit 0,
      call (AdapterRelease h) (call (InstanceRelease (createInstance a))
        (inspectAdapter b a h (on_cout (seq [put_str ''Got adapter: '', put_ptr b h, endl]) (env fr))))))
   \<and> (createInstance a \<noteq> 0 \<and> deliveries a n = [r] \<and> (\<forall>j<n. deliveries a j = [])
        \<and> (EMSCRIPTEN b \<or> n = 0) \<and> cb_status r \<noteq> WGPURequestAdapterStatus_Success b \<longrightarrow>
    main b a w = Some (Exit 0,
      call (AdapterRelease 0) (call (InstanceRelease (createInstance a))
        (inspectAdapter b a 0 (on_cout (seq [put_str ''Got adapter: '', put_ptr b 0, endl])
           (env (reached b a (createInstance a) (before_request b a w) n)))))))"
proof (intro conjI impI)
  assume "createInstance a \<noteq> 0
      \<and> requestAdapterSync b a (createInstance a) (before_request b a w) = Some (Inr (h, fr))"
  then show "main b a w = Some (Exit 0,
      call (AdapterRelease h) (call (InstanceRelease (createInstance a))
        (inspectAdapter b a h (on_cout (seq [put_str ''Got adapter: '', put_ptr b h, endl]) (env fr)))))"
    by (intro main_after_request) simp_all
next
  assume h: "createInstance a \<noteq> 0 \<and> deliveries a n = [r] \<and> (\<forall>j<n. deliveries a j = [])
        \<and> (EMSCRIPTEN b \<or> n = 0) \<and> cb_status r \<noteq> WGPURequestAdapterStatus_Success b"
  then have "createInstance a \<noteq> 0" "deliveries a n = [r]" "\<And>j. j < n \<Longrightarrow> deliveries a j = []"
    "EMSCRIPTEN b \<or> n = 0"
    by simp_all
  from main_single_delivery [OF this, of w] h
  show "main b a w = Some (Exit 0,
      call (AdapterRelease 0) (call (InstanceRelease (createInstance a))
        (inspectAdapter b a 0 (on_cout (seq [put_str ''Got adapter: '', put_ptr b 0, endl])
           (env (reached b a (createInstance a) (before_request b a w) n))))))"
    by simp
qed

theorem main_inspects_unconditionally_witness:
  "createInstance (stub_api 0 (failure_result 3)) \<noteq> 0
   \<and> deliveries (stub_api 0 (failure_result 3)) 0 = [failure_result 3]
   \<and> cb_status (failure_result 3) \<noteq> WGPURequestAdapterStatus_Success native_build
   \<and> requestAdapterSync native_build (stub_api 0 (failure_result 3))
        (createInstance (stub_api 0 (failure_result 3)))
        (before_request native_build (stub_api 0 (failure_result 3)) initial_world)
       = Some (Inr (0, reached native_build (stub_api 0 (failure_result 3)) 4096
                         (before_request native_build (stub_api 0 (failure_result 3)) initial_world) 0))
   \<and> main native_build (stub_api 0 (failure_result 3)) initial_world = Some (Exit 0,
       call (AdapterRelease 0) (call (InstanceRelease 4096)
         (inspectAdapter native_build (stub_api 0 (failure_result 3)) 0
            (on_cout (seq [put_str ''Got adapter: '', put_ptr native_build 0, endl])
               (env (reached native_build (stub_api 0 (failure_result 3)) 4096
                  (before_request native_build (stub_api 0 (failure_result 3)) initial_world) 0))))))"
proof -
  have h: "createInstance (stub_api 0 (failure_result 3)) \<noteq> 0
   \<and> deliveries (stub_api 0 (failure_result 3)) 0 = [failure_result 3]
   \<and> (\<forall>j<0. deliveries (stub_api 0 (failure_result 3)) j = [])
   \<and> (EMSCRIPTEN native_build \<or> (0::nat) = 0)
   \<and> cb_status (failure_result 3) \<noteq> WGPURequestAdapterStatus_Success native_build"
    by (simp add: stub_createInstance stub_deliveries failure_result_simps native_build_simps)
  have r: "requestAdapterSync native_build (stub_api 0 (failure_result 3))
        (createInstance (stub_api 0 (failure_result 3)))
        (before_request native_build (stub_api 0 (failure_result 3)) initial_world)
       = Some (Inr (0, reached native_build (stub_api 0 (failure_result 3)) 4096
                         (before_request native_build (stub_api 0 (failure_result 3)) initial_world) 0))"
    by (simp add: stub_createInstance stub_request_failure)
  from main_inspects_unconditionally [of "stub_api 0 (failure_result 3)" native_build initial_world
      0 "reached native_build (stub_api 0 (failure_result 3)) 4096
           (before_request native_build (stub_api 0 (failure_result 3)) initial_world) 0"
      0 "failure_result 3"] h r
  show ?thesis
    by (simp add: stub_createInstance)
qed

section \<open>The report of the inspector\<close>

text \<open>
  C5: for every adapter whose limits query is read as failed, \<open>inspectAdapter\<close> writes no
  limits lines: what it writes is the features section followed at once by the
  identification section, both complete.
\<close>

theorem inspectAdapter_limits_failure:
  assumes "\<not> limits_success b (fst (getLimits a h))"
  shows "buf (cout (inspectAdapter b a h w))
           = buf (cout w) @ features_text (getFeatures a h) @ properties_text Dec (getInfo a h)"
  using assms by (simp add: buf_inspectAdapter limits_text_def)

theorem inspectAdapter_limits_failure_witness:
  "\<not> limits_success native_build
        (fst (getLimits ((stub_api 0 success_result)\<lparr>getLimits := (\<lambda>h. (0, stub_limits))\<rparr>) 8192))
   \<and> buf (cout (inspectAdapter native_build
                  ((stub_api 0 success_result)\<lparr>getLimits := (\<lambda>h. (0, stub_limits))\<rparr>)
                  8192 initial_world))
       = ''Adapter features:'' @ nl @ '' - 0x1'' @ nl @ '' - 0x2a'' @ nl
         @ ''Adapter properties:'' @ nl
         @ '' - vendorID: 4318'' @ nl
         @ '' - vendorName: NVIDIA'' @ nl
         @ '' - architecture: turing'' @ nl
         @ '' - deviceID: 7812'' @ nl
         @ '' - name: GeForce'' @ nl
         @ '' - driverDescription: 535.1'' @ nl
         @ '' - adapterType: 0x0'' @ nl
         @ '' - backendType: 0x6'' @ nl"
proof -
  have f: "\<not> limits_success native_build
        (fst (getLimits ((stub_api 0 success_result)\<lparr>getLimits := (\<lambda>h. (0, stub_limits))\<rparr>) 8192))"
    by (simp add: limits_success_def native_build_def)
  show ?thesis
    using f inspectAdapter_limits_failure [OF f, of initial_world]
    by (simp add: stub_api_def stub_info_def initial_world_def features_text_def
        feature_line_def properties_text_def digits_small digits_large digit_char_def)
qed

text \<open>
  C6: for every adapter whose limits query succeeds, \<open>inspectAdapter\<close> writes, after the
  heading, exactly four limit lines, in the order maxTextureDimension1D,
  maxTextureDimension2D, maxTextureDimension3D, maxTextureArrayLayers, each with the value
  the query reported, in the base the stream is in (decimal in \<open>main\<close>); the features and
  identification sections follow.
\<close>

theorem inspectAdapter_limits_success:
  assumes "limits_success b (fst (getLimits a h))"
  shows "buf (cout (inspectAdapter b a h w))
           = buf (cout w)
             @ ''Adapter limits:'' @ nl
             @ '' - maxTextureDimension1D: ''
                 @ digits (basefield (cout w)) (unat (maxTextureDimension1D (snd (getLimits a h)))) @ nl
             @ '' - maxTextureDimension2D: ''
                 @ digits (basefield (cout w)) (unat (maxTextureDimension2D (snd (getLimits a h)))) @ nl
             @ '' - maxTextureDimension3D: ''
                 @ digits (basefield (cout w)) (unat (maxTextureDimension3D (snd (getLimits a h)))) @ nl
             @ '' - maxTextureArrayLayers: ''
                 @ digits (basefield (cout w)) (unat (maxTextureArrayLayers (snd (getLimits a h)))) @ nl
             @ features_text (getFeatures a h) @ properties_text Dec (getInfo a h)"
  using assms by (simp add: buf_inspectAdapter limits_text_def)

theorem inspectAdapter_limits_success_witness:
  "limits_success native_build (fst (getLimits (stub_api 0 success_result) 8192))
   \<and> buf (cout (inspectAdapter native_build (stub_api 0 success_result) 8192 initial_world))
       = ''Adapter limits:'' @ nl
         @ '' - maxTextureDimension1D: 8192'' @ nl
         @ '' - maxTextureDimension2D: 8192'' @ nl
         @ '' - maxTextureDimension3D: 2048'' @ nl
         @ '' - maxTextureArrayLayers: 256'' @ nl
         @ features_text [0x1, 0x2A] @ properties_text Dec stub_info"
proof -
  have s: "limits_success native_build (fst (getLimits (stub_api 0 success_result) 8192))"
    by (simp add: limits_success_def native_build_def stub_api_def)
  show ?thesis
    using s inspectAdapter_limits_success [OF s, of initial_world]
    by (simp add: stub_api_def stub_limits_def initial_world_def
        digits_small digits_large digit_char_def)
qed

text \<open>
  C7: for every feature list of the API, \<open>inspectAdapter\<close> writes one line per feature
  code, the code in hexadecimal after the prefix \<^verbatim>\<open>0x\<close>, with lower-case digits only;
  the native build frees the list the API returned exactly once (the browser-hosted build
  receives the codes in a vector of its own and has no list of the API to free).
\<close>

theorem inspectAdapter_features:
  "buf (cout (inspectAdapter b a h w))
     = buf (cout w) @ limits_text b a h (basefield (cout w))
       @ ''Adapter features:'' @ nl
       @ concat (map (\<lambda>f. '' - 0x'' @ digits Hex (unat f) @ nl) (getFeatures a h))
       @ properties_text Dec (getInfo a h)
   \<and> set (digits Hex n) \<subseteq> set ''0123456789abcdef''
   \<and> filter is_features_free (new_calls w (inspectAdapter b a h w))
       = (if EMSCRIPTEN b then [] else [SupportedFeaturesFreeMembers (getFeatures a h)])"
proof (intro conjI)
  show "buf (cout (inspectAdapter b a h w))
     = buf (cout w) @ limits_text b a h (basefield (cout w))
       @ ''Adapter features:'' @ nl
       @ concat (map (\<lambda>f. '' - 0x'' @ digits Hex (unat f) @ nl) (getFeatures a h))
       @ properties_text Dec (getInfo a h)"
    by (simp add: buf_inspectAdapter features_text_def feature_line_def)
  show "set (digits Hex n) \<subseteq> set ''0123456789abcdef''"
    by (rule digits_Hex_chars)
  show "filter is_features_free (new_calls w (inspectAdapter b a h w))
       = (if EMSCRIPTEN b then [] else [SupportedFeaturesFreeMembers (getFeatures a h)])"
    by (simp add: new_calls_def calls_inspectAdapter inspect_calls_def)
qed

theorem inspectAdapter_features_witness:
  "buf (cout (inspectAdapter native_build (stub_api 0 success_result) 8192 initial_world))
     = limits_text native_build (stub_api 0 success_result) 8192 Dec
       @ ''Adapter features:'' @ nl @ '' - 0x1'' @ nl @ '' - 0x2a'' @ nl
       @ properties_text Dec stub_info
   \<and> filter is_features_free
        (new_calls initial_world
           (inspectAdapter native_build (stub_api 0 success_result) 8192 initial_world))
       = [SupportedFeaturesFreeMembers [0x1, 0x2A]]"
  using inspectAdapter_features [of native_build "stub_api 0 success_result" 8192 initial_world 0]
  by (simp add: stub_api_def initial_world_def native_build_def
      digits_small digits_large digit_char_def)

text \<open>
  C10: in the identification section vendorID and deviceID are written in decimal
  (whatever base the stream was in when \<open>inspectAdapter\<close> was entered), adapterType and
  backendType in hexadecimal after the prefix \<^verbatim>\<open>0x\<close>, and the stream is in decimal mode
  when \<open>inspectAdapter\<close> returns.
\<close>

theorem inspectAdapter_identification:
  "buf (cout (inspectAdapter b a h w))
     = buf (cout w) @ limits_text b a h (basefield (cout w)) @ features_text (getFeatures a h)
       @ ''Adapter properties:'' @ nl
       @ '' - vendorID: '' @ digits Dec (unat (vendorID (getInfo a h))) @ nl
       @ '' - vendorName: '' @ vendor (getInfo a h) @ nl
       @ '' - architecture: '' @ architecture (getInfo a h) @ nl
       @ '' - deviceID: '' @ digits Dec (unat (deviceID (getInfo a h))) @ nl
       @ '' - name: '' @ device (getInfo a h) @ nl
       @ '' - driverDescription: '' @ description (getInfo a h) @ nl
       @ '' - adapterType: 0x'' @ digits Hex (unat (adapterType (getInfo a h))) @ nl
       @ '' - backendType: 0x'' @ digits Hex (unat (backendType (getInfo a h))) @ nl
   \<and> basefield (cout (inspectAdapter b a h w)) = Dec"
  by (simp add: buf_inspectAdapter properties_text_def basefield_inspectAdapter)

theorem inspectAdapter_identification_witness:
  "buf (cout (inspectAdapter native_build (stub_api 0 success_result) 8192
                (on_cout (set_base Hex) initial_world)))
     = limits_text native_build (stub_api 0 success_result) 8192 Hex
       @ features_text [0x1, 0x2A]
       @ ''Adapter properties:'' @ nl
       @ '' - vendorID: 4318'' @ nl
       @ '' - vendorName: NVIDIA'' @ nl
       @ '' - architecture: turing'' @ nl
       @ '' - deviceID: 7812'' @ nl
       @ '' - name: GeForce'' @ nl
       @ '' - driverDescription: 535.1'' @ nl
       @ '' - adapterType: 0x0'' @ nl
       @ '' - backendType: 0x6'' @ nl
   \<and> basefield (cout (inspectAdapter native_build (stub_api 0 success_result) 8192
                         (on_cout (set_base Hex) initial_world))) = Dec"
  using inspectAdapter_identification
          [of native_build "stub_api 0 success_result" 8192 "on_cout (set_base Hex) initial_world"]
  by (simp add: stub_api_def stub_info_def initial_world_def
      digits_small digits_large digit_char_def)

end
